theory Spec2Isabelle
  imports Main
begin

section \<open>The browser platform the client runs on\<close>

text \<open>
  The client is a Next.js/React front end. Its code talks to three platform services:
  \<^verbatim>\<open>localStorage\<close>, \<^verbatim>\<open>window.location\<close> and \<^verbatim>\<open>fetch\<close>. They are modelled as
  explicit state: a store from keys to strings, the current address, a clock in
  milliseconds and the history of the platform calls made so far.
\<close>

datatype error =
    TypeError        \<comment> \<open>\<^verbatim>\<open>fetch\<close> rejects with a TypeError when the network fails\<close>
  | TimeoutError     \<comment> \<open>the abort reason of \<^verbatim>\<open>AbortSignal.timeout\<close>\<close>
  | AbortError       \<comment> \<open>the abort reason of a controller the caller aborts\<close>
  | SyntaxError      \<comment> \<open>\<^verbatim>\<open>response.json()\<close> on a body that is not JSON\<close>
  | Error string     \<comment> \<open>\<^verbatim>\<open>new Error(message)\<close>\<close>

datatype signal =
    AbortTimeout nat           \<comment> \<open>\<^verbatim>\<open>AbortSignal.timeout(ms)\<close>\<close>
  | AbortManual "nat option"   \<comment> \<open>a controller of the caller, aborted at the given time or never\<close>

record requestInit =
  http_method :: "string option"
  body :: "string option"
  headers :: "string \<rightharpoonup> string"
  signal :: "signal option"

record request =
  url :: string
  init :: requestInit

text \<open>
  A response is there once its headers are: the body follows. It may never come, the
  connection may break while it comes, or it is complete so many milliseconds after the
  headers.
\<close>

datatype bodyRead = Stalls | Breaks nat | Completes nat

record 'j response =
  status :: nat
  bodyRead :: bodyRead
  parsed :: "'j option"   \<comment> \<open>the complete body as JSON; \<open>None\<close> when it does not parse\<close>

datatype 'j reply =
    Hang                        \<comment> \<open>the server never answers\<close>
  | Fails nat                   \<comment> \<open>the connection fails after so many milliseconds\<close>
  | Replies nat "'j response"   \<comment> \<open>the headers of a response arrive after so many milliseconds\<close>

type_synonym 'j network = "request \<Rightarrow> 'j reply"

datatype effect =
    Fetched request
  | RemovedItem string
  | Navigated string      \<comment> \<open>an assignment to \<^verbatim>\<open>window.location.href\<close>\<close>
  | Pushed string         \<comment> \<open>\<^verbatim>\<open>router.push\<close>\<close>
  | ConsoleError

text \<open>
  What \<^verbatim>\<open>useAuth()\<close> hands to the components: the pages destructure \<^verbatim>\<open>user\<close>,
  \<^verbatim>\<open>isAuthenticated\<close> and \<^verbatim>\<open>loading\<close> from it. A user is kept as stored, serialised.
\<close>

record authState =
  user :: "string option"
  isAuthenticated :: bool
  loading :: bool

record client =
  localStorage :: "string \<rightharpoonup> string"
  href :: string
  clock :: nat
  trace :: "effect list"
  auth :: authState

definition deadline :: "signal option \<Rightarrow> (nat \<times> error) option" where
  "deadline s =
     (case s of
        None \<Rightarrow> None
      | Some (AbortTimeout t) \<Rightarrow> Some (t, TimeoutError)
      | Some (AbortManual a) \<Rightarrow> map_option (\<lambda>t. (t, AbortError)) a)"

definition settle :: "signal option \<Rightarrow> nat \<Rightarrow> error + 'a \<Rightarrow> (nat \<times> (error + 'a)) option" where
  "settle s l out =
     (case deadline s of
        None \<Rightarrow> Some (l, out)
      | Some (t, e) \<Rightarrow> if l < t then Some (l, out) else Some (t, Inl e))"

text \<open>
  \<^verbatim>\<open>fetch(url, init)\<close>: the promise settles with the network's answer, or with the abort
  reason when the signal fires first; without a signal a hung call never settles
  (\<open>None\<close>). The result carries the time the call took.
\<close>

definition fetch :: "'j network \<Rightarrow> request \<Rightarrow> (nat \<times> (error + 'j response)) option" where
  "fetch net req =
     (case net req of
        Hang \<Rightarrow> map_option (\<lambda>(t, e). (t, Inl e)) (deadline (signal (init req)))
      | Fails l \<Rightarrow> settle (signal (init req)) l (Inl TypeError)
      | Replies l r \<Rightarrow> settle (signal (init req)) l (Inr r))"

text \<open>
  \<^verbatim>\<open>response.json()\<close> on a response whose headers came at time \<open>l\<close> of a request made
  with signal \<open>s\<close>: it reads the body to its end and parses it. The signal of the
  request stays in force while the body is read, and its time runs from the start of the
  request; a connection that breaks rejects with a TypeError. The time in the result is
  counted from the start of the request.
\<close>

definition json :: "signal option \<Rightarrow> nat \<Rightarrow> 'j response \<Rightarrow> (nat \<times> (error + 'j)) option" where
  "json s l resp =
     (case bodyRead resp of
        Stalls \<Rightarrow> map_option (\<lambda>(t, e). (t, Inl e)) (deadline s)
      | Breaks d \<Rightarrow> settle s (l + d) (Inl TypeError)
      | Completes d \<Rightarrow>
          settle s (l + d) (case parsed resp of None \<Rightarrow> Inl SyntaxError | Some v \<Rightarrow> Inr v))"

definition removeItem :: "string \<Rightarrow> client \<Rightarrow> client" where
  "removeItem k c = c\<lparr>localStorage := (localStorage c)(k := None), trace := trace c @ [RemovedItem k]\<rparr>"

definition navigate :: "string \<Rightarrow> client \<Rightarrow> client" where
  "navigate u c = c\<lparr>href := u, trace := trace c @ [Navigated u]\<rparr>"

section \<open>The API client: \<^verbatim>\<open>apiRequest\<close> (src/lib/api.ts, as given in the README)\<close>

text \<open>
  \<^verbatim>\<open>...(token && { Authorization: `Bearer ${token}` })\<close>: \<^verbatim>\<open>getItem\<close> gives \<^verbatim>\<open>null\<close> for a
  missing key, and both \<^verbatim>\<open>null\<close> and the empty string are falsy, so neither spreads a
  property.
\<close>

definition bearer :: "string option \<Rightarrow> (string \<rightharpoonup> string)" where
  "bearer token =
     (case token of
        None \<Rightarrow> Map.empty
      | Some t \<Rightarrow> if t = [] then Map.empty else [''Authorization'' \<mapsto> ''Bearer '' @ t])"

text \<open>
  The two arguments of the call to \<^verbatim>\<open>fetch\<close>. The object literal spreads \<^verbatim>\<open>options\<close>
  first, so its \<^verbatim>\<open>headers\<close> and \<^verbatim>\<open>signal\<close> are replaced; inside \<^verbatim>\<open>headers\<close> the
  caller's headers are spread last and win. \<open>base\<close> is \<^verbatim>\<open>API_BASE_URL\<close>.
\<close>

definition fetchArgs :: "string \<Rightarrow> string \<Rightarrow> requestInit \<Rightarrow> client \<Rightarrow> request" where
  "fetchArgs base endpoint options c =
     (let token = localStorage c ''auth_token'' in
      \<lparr>url = base @ endpoint,
       init = options\<lparr>
         headers := [''Content-Type'' \<mapsto> ''application/json''] ++ bearer token ++ headers options,
         signal := Some (AbortTimeout 5000)\<rparr>\<rparr>)"

definition apiRequest ::
  "'j network \<Rightarrow> string \<Rightarrow> string \<Rightarrow> requestInit \<Rightarrow> client \<Rightarrow> ((error + 'j) \<times> client) option" where
  "apiRequest net base endpoint options c =
     (let req = fetchArgs base endpoint options c in
      case fetch net req of
        None \<Rightarrow> None
      | Some (ms, r) \<Rightarrow>
          (let c1 = c\<lparr>clock := clock c + ms, trace := trace c @ [Fetched req]\<rparr> in
           case r of
             Inl e \<Rightarrow> Some (Inl e, c1)
           | Inr resp \<Rightarrow>
               if status resp = 401
               then Some (Inl (Error ''Authentication required''),
                          navigate ''/login'' (removeItem ''user'' (removeItem ''auth_token'' c1)))
               else (case json (signal (init req)) ms resp of
                       None \<Rightarrow> None
                     | Some (t, out) \<Rightarrow> Some (out, c1\<lparr>clock := clock c + t\<rparr>))))"

text \<open>
  No HTTP response reaches \<^verbatim>\<open>apiRequest\<close>: the server never answers, the connection
  fails, or the answer comes after the five seconds of the request's signal.
\<close>

definition unanswered :: "'j network \<Rightarrow> request \<Rightarrow> bool" where
  "unanswered net req =
     (case net req of Hang \<Rightarrow> True | Fails l \<Rightarrow> True | Replies l r \<Rightarrow> 5000 \<le> l)"

text \<open>The platform calls made between two states of the client.\<close>

definition during :: "client \<Rightarrow> client \<Rightarrow> effect list" where
  "during c c' = drop (length (trace c)) (trace c')"

fun fetches :: "effect list \<Rightarrow> request list" where
  "fetches [] = []"
| "fetches (Fetched r # es) = r # fetches es"
| "fetches (_ # es) = fetches es"

fun pushes :: "effect list \<Rightarrow> string list" where
  "pushes [] = []"
| "pushes (Pushed u # es) = u # pushes es"
| "pushes (_ # es) = pushes es"

text \<open>The default of the parameter \<^verbatim>\<open>options: RequestInit = {}\<close>.\<close>

definition defaultOptions :: requestInit where
  "defaultOptions = \<lparr>http_method = None, body = None, headers = Map.empty, signal = None\<rparr>"

section \<open>The session: \<^verbatim>\<open>useAuth\<close> and the header's logout button\<close>

definition push :: "string \<Rightarrow> client \<Rightarrow> client" where
  "push u c = c\<lparr>trace := trace c @ [Pushed u]\<rparr>"

definition consoleError :: "client \<Rightarrow> client" where
  "consoleError c = c\<lparr>trace := trace c @ [ConsoleError]\<rparr>"

definition unauthenticated :: authState where
  "unauthenticated = \<lparr>user = None, isAuthenticated = False, loading = False\<rparr>"

text \<open>
  Modelled from the spec: \<^verbatim>\<open>restore()\<close> of the Session Manager (the mount effect of
  \<^verbatim>\<open>useAuth\<close>, src/hooks/useAuth.ts, which is not among the sources). The spec:
  "reads persisted token at startup; if absent, state = unauthenticated; if present,
  optimistically treats it as valid pending first API confirmation". It reads the store
  and sets the state; it calls nothing.
\<close>

definition restore :: "client \<Rightarrow> client" where
  "restore c =
     (case localStorage c ''auth_token'' of
        None \<Rightarrow> c\<lparr>auth := unauthenticated\<rparr>
      | Some t \<Rightarrow> c\<lparr>auth := \<lparr>user = localStorage c ''user'', isAuthenticated = True, loading = False\<rparr>\<rparr>)"

text \<open>
  Modelled from the spec: \<^verbatim>\<open>logout()\<close> of the Session Manager (\<^verbatim>\<open>useAuth\<close>, not among
  the sources). The spec: "best-effort notifies the server, then unconditionally clears
  persisted token and local state -- clearing proceeds even if the server call fails".
  The notification is \<^verbatim>\<open>POST /api/auth/logout\<close> through the API client; its outcome is
  handed on to the caller after the clearing, since \<^verbatim>\<open>handleLogout\<close> below catches it.
\<close>

definition logout :: "'j network \<Rightarrow> string \<Rightarrow> client \<Rightarrow> ((error + unit) \<times> client) option" where
  "logout net base c =
     (case apiRequest net base ''/api/auth/logout'' (defaultOptions\<lparr>http_method := Some ''POST''\<rparr>) c of
        None \<Rightarrow> None
      | Some (r, c1) \<Rightarrow>
          Some (case r of Inl e \<Rightarrow> Inl e | Inr (_ :: 'j) \<Rightarrow> Inr (),
                (removeItem ''user'' (removeItem ''auth_token'' c1))\<lparr>auth := unauthenticated\<rparr>))"

text \<open>
  \<^verbatim>\<open>handleLogout\<close> of the \<^verbatim>\<open>Header\<close> component: \<^verbatim>\<open>await logout()\<close> inside \<^verbatim>\<open>try\<close>, then
  \<^verbatim>\<open>router.push('/login')\<close>; the \<^verbatim>\<open>catch\<close> logs and pushes \<^verbatim>\<open>/login\<close> as well. The
  \<^verbatim>\<open>logout\<close> of \<^verbatim>\<open>useAuth()\<close> is its first argument.
\<close>

definition handleLogout ::
  "(client \<Rightarrow> ((error + unit) \<times> client) option) \<Rightarrow> client \<Rightarrow> client option" where
  "handleLogout lg c =
     (case lg c of
        None \<Rightarrow> None
      | Some (Inr _, c1) \<Rightarrow> Some (push ''/login'' c1)
      | Some (Inl e, c1) \<Rightarrow> Some (push ''/login'' (consoleError c1)))"

section \<open>The home page\<close>

text \<open>
  The effect of \<^verbatim>\<open>HomePage\<close>: nothing while \<^verbatim>\<open>loading\<close>; then \<^verbatim>\<open>/todos\<close> for an
  authenticated user and \<^verbatim>\<open>/login\<close> otherwise.
\<close>

definition HomePage_effect :: "authState \<Rightarrow> client \<Rightarrow> client" where
  "HomePage_effect a c =
     (if loading a then c
      else if isAuthenticated a then push ''/todos'' c
      else push ''/login'' c)"

text \<open>
  React runs the effect after the first render and after every later render in which a
  dependency changed. The dependencies are \<^verbatim>\<open>[isAuthenticated, loading, router]\<close>; the
  router object is the same one in every render. A visit is the list of the
  \<^verbatim>\<open>useAuth()\<close> values of its renders, in order.
\<close>

fun runEffects :: "(bool \<times> bool) option \<Rightarrow> authState list \<Rightarrow> client \<Rightarrow> client" where
  "runEffects prev [] c = c"
| "runEffects prev (a # rest) c =
     (if prev = Some (isAuthenticated a, loading a) then runEffects prev rest c
      else runEffects (Some (isAuthenticated a, loading a)) rest (HomePage_effect a c))"

definition HomePage_visit :: "authState list \<Rightarrow> client \<Rightarrow> client" where
  "HomePage_visit renders c = runEffects None renders c"

section \<open>The todos page\<close>

record task =
  task_id :: string
  title :: string
  description :: "string option"
  completed :: bool
  createdAt :: string

text \<open>
  Modelled from the spec: \<^verbatim>\<open>toggleTask\<close> of \<^verbatim>\<open>useTasks\<close> (src/hooks/useTasks.ts and the
  backend behind \<^verbatim>\<open>PATCH /api/tasks/{id}/toggle\<close> are not among the sources). The spec
  lists the endpoint as returning the task and the README describes the operation as
  "mark it as complete/incomplete": the task with the given id has its \<^verbatim>\<open>completed\<close>
  flag negated, in the cached list the page renders.
\<close>

definition toggleTask :: "string \<Rightarrow> task list \<Rightarrow> task list" where
  "toggleTask i ts = map (\<lambda>t. if task_id t = i then t\<lparr>completed := \<not> completed t\<rparr> else t) ts"

text \<open>\<^verbatim>\<open>handleToggleTask\<close> of \<^verbatim>\<open>TodosPage\<close>: \<^verbatim>\<open>await toggleTask(id)\<close>.\<close>

definition handleToggleTask :: "string \<Rightarrow> task list \<Rightarrow> task list" where
  "handleToggleTask i ts = toggleTask i ts"







text \<open>
  The sessions a client holds, each named by its user: the one in memory, when
  \<^verbatim>\<open>useAuth()\<close> reports an authenticated state, and the persisted one, when a token is
  stored. The same session held in both places counts once.
\<close>

definition sessionsHeld :: "client \<Rightarrow> string option list" where
  "sessionsHeld c =
     remdups
       ((if isAuthenticated (auth c) then [user (auth c)] else []) @
        (case localStorage c ''auth_token'' of
           None \<Rightarrow> []
         | Some t \<Rightarrow> [localStorage c ''user'']))"

section \<open>The states a client can reach\<close>








section \<open>Sample inputs\<close>

definition apiBase :: string where
  "apiBase = ''http://localhost:8001''"

definition signedIn :: client where
  "signedIn = \<lparr>localStorage = [''auth_token'' \<mapsto> ''abc'', ''user'' \<mapsto> ''ann''],
               href = ''/todos'', clock = 0, trace = [],
               auth = \<lparr>user = Some ''ann'', isAuthenticated = True, loading = False\<rparr>\<rparr>"

definition signedOut :: client where
  "signedOut = \<lparr>localStorage = Map.empty, href = ''/'', clock = 0, trace = [],
                auth = \<lparr>user = None, isAuthenticated = False, loading = True\<rparr>\<rparr>"

definition answers :: "nat \<Rightarrow> string option \<Rightarrow> string network" where
  "answers code data =
     (\<lambda>_. Replies 120 \<lparr>status = code, bodyRead = Completes 30, parsed = data\<rparr>)"

definition stalling :: "string network" where
  "stalling = (\<lambda>_. Replies 100 \<lparr>status = 200, bodyRead = Stalls, parsed = Some ''[]''\<rparr>)"

definition groceries :: task where
  "groceries = \<lparr>task_id = ''7'', title = ''Buy milk'', description = None, completed = False,
                createdAt = ''2026-01-15T09:30:00Z''\<rparr>"


definition silent :: "string network" where
  "silent = (\<lambda>_. Hang)"

section \<open>Properties of the API client\<close>

lemma fetch_timeout_reply:
  "net req = Replies l r \<Longrightarrow> signal (init req) = Some (AbortTimeout t) \<Longrightarrow> l < t \<Longrightarrow>
   fetch net req = Some (l, Inr r)"
  by (simp add: fetch_def settle_def deadline_def)

lemma fetchArgs_signal: "signal (init (fetchArgs base endpoint options c)) = Some (AbortTimeout 5000)"
  by (simp add: fetchArgs_def)

text \<open>
  C1. When the response to a request made through \<^verbatim>\<open>apiRequest\<close> has status 401, the
  stored token is removed (exactly one \<^verbatim>\<open>removeItem('auth_token')\<close>), the window is
  sent to \<^verbatim>\<open>/login\<close>, the caller gets the error, and exactly one \<^verbatim>\<open>fetch\<close> was made:
  the request is not attempted again.
\<close>

theorem apiRequest_unauthorized:
  assumes "net (fetchArgs base endpoint options c) = Replies l resp"
    and "l < 5000"
    and "status resp = 401"
  shows "\<exists>c'. apiRequest net base endpoint options c = Some (Inl (Error ''Authentication required''), c')
            \<and> localStorage c' ''auth_token'' = None
            \<and> count_list (during c c') (RemovedItem ''auth_token'') = 1
            \<and> href c' = ''/login''
            \<and> fetches (during c c') = [fetchArgs base endpoint options c]"
proof -
  have "fetch net (fetchArgs base endpoint options c) = Some (l, Inr resp)"
    using assms(1,2) by (simp add: fetch_timeout_reply fetchArgs_signal)
  then show ?thesis
    using assms(3) by (simp add: apiRequest_def Let_def removeItem_def navigate_def during_def)
qed

theorem apiRequest_unauthorized_witness:
  "answers 401 None (fetchArgs apiBase ''/api/tasks/'' defaultOptions signedIn)
     = Replies 120 \<lparr>status = 401, bodyRead = Completes 30, parsed = None\<rparr>
   \<and> (120::nat) < 5000
   \<and> status \<lparr>status = 401, bodyRead = Completes 30, parsed = None :: string option\<rparr> = 401
   \<and> (\<exists>c'. apiRequest (answers 401 None) apiBase ''/api/tasks/'' defaultOptions signedIn
               = Some (Inl (Error ''Authentication required''), c')
            \<and> localStorage c' ''auth_token'' = None
            \<and> count_list (during signedIn c') (RemovedItem ''auth_token'') = 1
            \<and> href c' = ''/login''
            \<and> fetches (during signedIn c') = [fetchArgs apiBase ''/api/tasks/'' defaultOptions signedIn])"
  using apiRequest_unauthorized[of "answers 401 None" apiBase "''/api/tasks/''" defaultOptions signedIn
      120 "\<lparr>status = 401, bodyRead = Completes 30, parsed = None\<rparr>"]
  by (simp add: answers_def)

lemma fetch_settles:
  "signal (init req) = Some (AbortTimeout t) \<Longrightarrow> \<exists>ms r. fetch net req = Some (ms, r) \<and> ms \<le> t"
  by (auto simp: fetch_def settle_def deadline_def split: reply.splits)

lemma fetch_unanswered:
  assumes "unanswered net req" and "signal (init req) = Some (AbortTimeout 5000)"
  shows "\<exists>ms e. fetch net req = Some (ms, Inl e) \<and> (e = TypeError \<or> e = TimeoutError)"
  using assms by (auto simp: unanswered_def fetch_def settle_def deadline_def split: reply.splits)

lemma apiRequest_rejected:
  assumes "fetch net (fetchArgs base endpoint options c) = Some (ms, Inl e)"
  shows "\<exists>c'. apiRequest net base endpoint options c = Some (Inl e, c')
            \<and> localStorage c' = localStorage c \<and> auth c' = auth c \<and> href c' = href c"
  using assms by (simp add: apiRequest_def Let_def)

lemma json_settles:
  "\<exists>t out. json (Some (AbortTimeout d)) l resp = Some (t, out) \<and> t \<le> max l d"
  by (auto simp: json_def settle_def deadline_def split: bodyRead.splits)

lemma apiRequest_settles:
  "\<exists>r c'. apiRequest net base endpoint options c = Some (r, c')
          \<and> clock c' \<le> clock c + 5000
          \<and> fetches (during c c') = [fetchArgs base endpoint options c]"
proof -
  obtain ms r where f: "fetch net (fetchArgs base endpoint options c) = Some (ms, r)"
    and ms: "ms \<le> 5000"
    using fetch_settles[OF fetchArgs_signal] by blast
  show ?thesis
  proof (cases r)
    case (Inl e)
    then show ?thesis
      using f ms by (simp add: apiRequest_def Let_def during_def)
  next
    case (Inr resp)
    obtain t out where j: "json (Some (AbortTimeout 5000)) ms resp = Some (t, out)"
      and t: "t \<le> max ms 5000"
      using json_settles by blast
    then show ?thesis
      using f ms Inr
      by (simp add: apiRequest_def Let_def removeItem_def navigate_def during_def
          fetchArgs_signal)
  qed
qed

lemma fetchArgs_authorization:
  "headers (init (fetchArgs base endpoint options c)) ''Authorization'' =
     (case headers options ''Authorization'' of
        Some v \<Rightarrow> Some v
      | None \<Rightarrow> (case localStorage c ''auth_token'' of
                   None \<Rightarrow> None
                 | Some t \<Rightarrow> if t = [] then None else Some (''Bearer '' @ t)))"
  by (simp add: fetchArgs_def bearer_def map_add_def split: option.splits)

text \<open>
  C3. When a request made through \<^verbatim>\<open>apiRequest\<close> gets no HTTP response (the network
  fails, or the call runs into its timeout), the caller gets an error -- the TypeError of
  the failed \<^verbatim>\<open>fetch\<close> or the TimeoutError of the signal -- and the session is as it
  was: the whole store (token and user), the authentication state and the address.
\<close>

theorem apiRequest_network_failure:
  assumes "unanswered net (fetchArgs base endpoint options c)"
  shows "\<exists>e c'. apiRequest net base endpoint options c = Some (Inl e, c')
              \<and> (e = TypeError \<or> e = TimeoutError)
              \<and> localStorage c' = localStorage c \<and> auth c' = auth c \<and> href c' = href c"
proof -
  obtain ms e where "fetch net (fetchArgs base endpoint options c) = Some (ms, Inl e)"
    and "e = TypeError \<or> e = TimeoutError"
    using fetch_unanswered[OF assms fetchArgs_signal] by blast
  then show ?thesis
    using apiRequest_rejected by blast
qed

theorem apiRequest_network_failure_witness:
  "unanswered silent (fetchArgs apiBase ''/api/tasks/'' defaultOptions signedIn)
   \<and> (\<exists>e c'. apiRequest silent apiBase ''/api/tasks/'' defaultOptions signedIn = Some (Inl e, c')
              \<and> (e = TypeError \<or> e = TimeoutError)
              \<and> localStorage c' = localStorage signedIn \<and> auth c' = auth signedIn
              \<and> href c' = href signedIn)"
  using apiRequest_network_failure[of silent apiBase "''/api/tasks/''" defaultOptions signedIn]
  by (simp add: unanswered_def silent_def)

text \<open>
  C4 as stated fails: \<^verbatim>\<open>apiRequest\<close> looks at the status only to compare it with 401. A
  response with status 500 whose body is JSON is returned to the caller as the result.
\<close>

theorem apiRequest_server_error_counterexample:
  "map_option fst
     (apiRequest (answers 500 (Some ''Internal Server Error'')) apiBase ''/api/tasks/''
        defaultOptions signedIn)
   = Some (Inr ''Internal Server Error'')"
  by (simp add: apiRequest_def fetch_def json_def settle_def deadline_def fetchArgs_def
      answers_def Let_def)

text \<open>
  C4, amended. For a response whose status is not 401, whatever the status, \<^verbatim>\<open>apiRequest\<close>
  hands the caller what \<^verbatim>\<open>response.json()\<close> gives. That is the parsed body, as the
  result, when the body is complete within the five seconds of the request and is JSON.
  Otherwise it is the error of reading the body: a SyntaxError for a body that is not
  JSON, the TimeoutError of the signal when the body is not complete in time, a TypeError
  when the connection breaks in the body. The session (store, authentication state,
  address) is as it was.
\<close>

theorem apiRequest_other_status:
  assumes "net (fetchArgs base endpoint options c) = Replies l resp"
    and "l < 5000"
    and "status resp \<noteq> 401"
  shows "\<exists>c'. apiRequest net base endpoint options c
               = Some (case bodyRead resp of
                         Stalls \<Rightarrow> Inl TimeoutError
                       | Breaks d \<Rightarrow> if l + d < 5000 then Inl TypeError else Inl TimeoutError
                       | Completes d \<Rightarrow>
                           if l + d < 5000
                           then (case parsed resp of None \<Rightarrow> Inl SyntaxError | Some v \<Rightarrow> Inr v)
                           else Inl TimeoutError,
                       c')
            \<and> localStorage c' = localStorage c \<and> auth c' = auth c \<and> href c' = href c"
proof -
  have "fetch net (fetchArgs base endpoint options c) = Some (l, Inr resp)"
    using assms(1,2) by (simp add: fetch_timeout_reply fetchArgs_signal)
  then show ?thesis
    using assms(3)
    by (simp add: apiRequest_def Let_def fetchArgs_signal json_def settle_def deadline_def
        split: bodyRead.splits)
qed

theorem apiRequest_other_status_witness:
  "stalling (fetchArgs apiBase ''/api/tasks/'' defaultOptions signedIn)
     = Replies 100 \<lparr>status = 200, bodyRead = Stalls, parsed = Some ''[]''\<rparr>
   \<and> (100::nat) < 5000
   \<and> status \<lparr>status = 200, bodyRead = Stalls, parsed = Some ''[]''\<rparr> \<noteq> 401
   \<and> (\<exists>c'. apiRequest stalling apiBase ''/api/tasks/'' defaultOptions signedIn
               = Some (Inl TimeoutError, c')
            \<and> localStorage c' = localStorage signedIn \<and> auth c' = auth signedIn
            \<and> href c' = href signedIn)"
  using apiRequest_other_status[of stalling apiBase "''/api/tasks/''" defaultOptions
      signedIn 100 "\<lparr>status = 200, bodyRead = Stalls, parsed = Some ''[]''\<rparr>"]
  by (simp add: stalling_def)

text \<open>
  C5 as stated fails twice. The caller's headers are spread after the bearer header, so
  an \<^verbatim>\<open>Authorization\<close> of the caller replaces the token's; and a stored token that is the
  empty string is falsy, so no header is attached for it.
\<close>

theorem apiRequest_authorization_counterexample:
  "headers (init (fetchArgs apiBase ''/api/tasks/''
      (defaultOptions\<lparr>headers := [''Authorization'' \<mapsto> ''Basic xyz'']\<rparr>) signedIn)) ''Authorization''
     = Some ''Basic xyz''
   \<and> localStorage signedIn ''auth_token'' = Some ''abc''
   \<and> headers (init (fetchArgs apiBase ''/api/tasks/''
      (defaultOptions\<lparr>headers := [''Authorization'' \<mapsto> ''Basic xyz'']\<rparr>) signedOut)) ''Authorization''
     = Some ''Basic xyz''
   \<and> localStorage signedOut ''auth_token'' = None
   \<and> headers (init (fetchArgs apiBase ''/api/tasks/'' defaultOptions
      (signedIn\<lparr>localStorage := [''auth_token'' \<mapsto> '''']\<rparr>))) ''Authorization'' = None"
  by (simp add: fetchArgs_def defaultOptions_def signedIn_def signedOut_def bearer_def)

text \<open>
  C5, amended. For every request made through \<^verbatim>\<open>apiRequest\<close> whose \<^verbatim>\<open>options.headers\<close>
  set no \<^verbatim>\<open>Authorization\<close> of their own: the one request sent carries
  \<^verbatim>\<open>Authorization: Bearer <token>\<close> when a non-empty token is stored, and no
  \<^verbatim>\<open>Authorization\<close> header when no token (or an empty one) is stored.
\<close>

theorem apiRequest_authorization_header:
  assumes "headers options ''Authorization'' = None"
  shows "\<exists>r c' req. apiRequest net base endpoint options c = Some (r, c')
            \<and> fetches (during c c') = [req]
            \<and> headers (init req) ''Authorization'' =
                (case localStorage c ''auth_token'' of
                   None \<Rightarrow> None
                 | Some t \<Rightarrow> if t = [] then None else Some (''Bearer '' @ t))"
proof -
  obtain r c' where "apiRequest net base endpoint options c = Some (r, c')"
    and "fetches (during c c') = [fetchArgs base endpoint options c]"
    using apiRequest_settles by blast
  moreover have "headers (init (fetchArgs base endpoint options c)) ''Authorization'' =
      (case localStorage c ''auth_token'' of
         None \<Rightarrow> None
       | Some t \<Rightarrow> if t = [] then None else Some (''Bearer '' @ t))"
    using assms by (simp add: fetchArgs_authorization)
  ultimately show ?thesis by blast
qed

theorem apiRequest_authorization_header_witness:
  "headers defaultOptions ''Authorization'' = None
   \<and> (\<exists>r c' req. apiRequest silent apiBase ''/api/tasks/'' defaultOptions signedIn = Some (r, c')
            \<and> fetches (during signedIn c') = [req]
            \<and> headers (init req) ''Authorization'' = Some ''Bearer abc'')"
  using apiRequest_authorization_header[of defaultOptions silent apiBase "''/api/tasks/''" signedIn]
  by (simp add: defaultOptions_def signedIn_def)

text \<open>
  C6. Every request made through \<^verbatim>\<open>apiRequest\<close> is sent with the signal
  \<^verbatim>\<open>AbortSignal.timeout(5000)\<close>, so the call settles, with a result or an error, at most
  5000 ms after it began, whatever the network does, and with one \<^verbatim>\<open>fetch\<close>. A signal the
  caller puts into \<^verbatim>\<open>options\<close> is replaced by it and changes nothing: the caller has no
  means to cancel.
\<close>

theorem apiRequest_timeout:
  "signal (init (fetchArgs base endpoint options c)) = Some (AbortTimeout 5000)
   \<and> fetchArgs base endpoint (options\<lparr>signal := s\<rparr>) c = fetchArgs base endpoint options c
   \<and> apiRequest net base endpoint (options\<lparr>signal := s\<rparr>) c = apiRequest net base endpoint options c
   \<and> (\<exists>r c'. apiRequest net base endpoint options c = Some (r, c')
           \<and> clock c' \<le> clock c + 5000
           \<and> fetches (during c c') = [fetchArgs base endpoint options c])"
proof -
  have same: "fetchArgs base endpoint (options\<lparr>signal := s\<rparr>) c = fetchArgs base endpoint options c"
    by (simp add: fetchArgs_def)
  then have "apiRequest net base endpoint (options\<lparr>signal := s\<rparr>) c
      = apiRequest net base endpoint options c"
    by (simp add: apiRequest_def)
  with same show ?thesis
    using fetchArgs_signal apiRequest_settles by blast
qed

theorem apiRequest_timeout_witness:
  "map_option (\<lambda>(r, c'). (r, clock c'))
     (apiRequest silent apiBase ''/api/tasks/''
        (defaultOptions\<lparr>signal := Some (AbortManual (Some 10))\<rparr>) signedIn)
   = Some (Inl TimeoutError, 5000)"
proof -
  have "apiRequest silent apiBase ''/api/tasks/''
          (defaultOptions\<lparr>signal := Some (AbortManual (Some 10))\<rparr>) signedIn
        = apiRequest silent apiBase ''/api/tasks/'' defaultOptions signedIn"
    using apiRequest_timeout[of apiBase "''/api/tasks/''" defaultOptions signedIn
        "Some (AbortManual (Some 10))" silent]
    by blast
  then show ?thesis
    by (simp add: apiRequest_def fetch_def deadline_def fetchArgs_def silent_def signedIn_def Let_def)
qed

section \<open>Properties of the session\<close>

lemma pushes_append: "pushes (xs @ ys) = pushes xs @ pushes ys"
  by (induction xs rule: pushes.induct) simp_all

lemma during_append: "trace c' = trace c @ es \<Longrightarrow> during c c' = es"
  by (simp add: during_def)

lemma apiRequest_trace:
  assumes "apiRequest net base endpoint options c = Some (r, c')"
  shows "\<exists>es. trace c' = trace c @ es \<and> pushes es = []"
  using assms
  by (auto simp: apiRequest_def Let_def removeItem_def navigate_def
      split: option.splits sum.splits if_splits)

lemma handleLogout_pushes:
  assumes "lg c = Some (r, c1)"
  shows "\<exists>c'. handleLogout lg c = Some c'
            \<and> (\<exists>es. trace c' = trace c1 @ es \<and> pushes es = [''/login''])
            \<and> localStorage c' = localStorage c1 \<and> auth c' = auth c1"
  using assms by (cases r) (simp_all add: handleLogout_def push_def consoleError_def)

lemma logout_clears:
  "\<exists>r c1. logout net base c = Some (r, c1)
      \<and> localStorage c1 ''auth_token'' = None \<and> localStorage c1 ''user'' = None
      \<and> auth c1 = unauthenticated \<and> (\<exists>es. trace c1 = trace c @ es \<and> pushes es = [])"
proof -
  obtain r c' where a: "apiRequest net base ''/api/auth/logout''
      (defaultOptions\<lparr>http_method := Some ''POST''\<rparr>) c = Some (r :: error + 'a, c')"
    using apiRequest_settles by blast
  then obtain es where "trace c' = trace c @ es" "pushes es = []"
    using apiRequest_trace by blast
  with a show ?thesis
    by (simp add: logout_def removeItem_def pushes_append)
qed

text \<open>
  C2. Every run of the header's \<^verbatim>\<open>handleLogout\<close> over \<^verbatim>\<open>logout()\<close> ends, whatever the
  server does with the logout call (answer, error status, failure, silence), with the
  stored token and user removed, the authentication state unauthenticated, and one
  \<^verbatim>\<open>router.push\<close>, to \<^verbatim>\<open>/login\<close>.
\<close>

theorem handleLogout_clears:
  "\<exists>c'. handleLogout (logout net base) c = Some c'
        \<and> localStorage c' ''auth_token'' = None \<and> localStorage c' ''user'' = None
        \<and> auth c' = unauthenticated
        \<and> pushes (during c c') = [''/login'']"
proof -
  obtain r c1 es1 where l: "logout net base c = Some (r, c1)"
    and s: "localStorage c1 ''auth_token'' = None" "localStorage c1 ''user'' = None"
      "auth c1 = unauthenticated"
    and t1: "trace c1 = trace c @ es1" "pushes es1 = []"
    using logout_clears by blast
  obtain c' es2 where h: "handleLogout (logout net base) c = Some c'"
    and t2: "trace c' = trace c1 @ es2" "pushes es2 = [''/login'']"
    and k: "localStorage c' = localStorage c1" "auth c' = auth c1"
    using handleLogout_pushes[of "logout net base" c r c1] l by blast
  have "during c c' = es1 @ es2"
    using t1 t2 by (simp add: during_append)
  then show ?thesis
    using h s k t1 t2 by (simp add: pushes_append)
qed

theorem handleLogout_clears_witness:
  "\<exists>c'. handleLogout (logout silent apiBase) signedIn = Some c'
        \<and> localStorage c' ''auth_token'' = None \<and> localStorage c' ''user'' = None
        \<and> auth c' = unauthenticated
        \<and> pushes (during signedIn c') = [''/login'']"
  using handleLogout_clears[of silent apiBase signedIn] by simp

text \<open>
  C7. After \<^verbatim>\<open>restore()\<close> the client is authenticated exactly when a token is stored:
  with no token the state is the unauthenticated one, with a token it is authenticated.
  Restoring makes no platform call (so no login call) and leaves the store as it is.
\<close>

theorem restore_state:
  "isAuthenticated (auth (restore c)) = (localStorage c ''auth_token'' \<noteq> None)
   \<and> (localStorage c ''auth_token'' = None \<longrightarrow> auth (restore c) = unauthenticated)
   \<and> during c (restore c) = []
   \<and> localStorage (restore c) = localStorage c"
  by (simp add: restore_def unauthenticated_def during_def split: option.splits)

theorem restore_state_witness:
  "localStorage signedOut ''auth_token'' = None
   \<and> auth (restore signedOut) = unauthenticated
   \<and> localStorage signedIn ''auth_token'' \<noteq> None
   \<and> isAuthenticated (auth (restore signedIn))
   \<and> during signedIn (restore signedIn) = []"
  using restore_state[of signedOut] restore_state[of signedIn]
  by (simp add: signedOut_def signedIn_def)

section \<open>Properties of the pages\<close>

text \<open>
  C8. Toggling a task twice gives back the task list as it was; in particular every
  task has its original \<^verbatim>\<open>completed\<close> flag again.
\<close>

theorem handleToggleTask_twice:
  "handleToggleTask i (handleToggleTask i ts) = ts
   \<and> map completed (handleToggleTask i (handleToggleTask i ts)) = map completed ts"
proof -
  have "handleToggleTask i (handleToggleTask i ts) = ts"
    by (induction ts) (simp_all add: handleToggleTask_def toggleTask_def)
  then show ?thesis by simp
qed

theorem handleToggleTask_twice_witness:
  "map completed (handleToggleTask ''7'' [groceries]) = [True]
   \<and> handleToggleTask ''7'' (handleToggleTask ''7'' [groceries]) = [groceries]"
  using handleToggleTask_twice[of "''7''" "[groceries]"]
  by (simp add: handleToggleTask_def toggleTask_def groceries_def)


text \<open>
  Two sessions can be told apart: a state whose memory holds one user's session while
  another user's is persisted holds two. No run of the client gets there.
\<close>

lemma sessionsHeld_two:
  "sessionsHeld (signedIn\<lparr>auth := \<lparr>user = Some ''bob'', isAuthenticated = True, loading = False\<rparr>\<rparr>)
     = [Some ''bob'', Some ''ann'']"
  by (simp add: sessionsHeld_def signedIn_def)








lemma runEffects_settled:
  "runEffects (Some (isAuthenticated a, loading a)) (replicate n a) c = c"
  by (induction n) simp_all

lemma runEffects_loaded:
  assumes "prev \<noteq> Some (isAuthenticated a, loading a)" and "0 < n"
  shows "runEffects prev (replicate n a) c = HomePage_effect a c"
proof -
  obtain m where "n = Suc m" using assms(2) by (cases n) simp_all
  then show ?thesis using assms(1) by (simp add: runEffects_settled)
qed

lemma runEffects_loading:
  assumes "\<forall>x\<in>set ls. loading x" and "\<forall>b. prev \<noteq> Some (b, False)"
  shows "\<exists>prev'. (\<forall>b. prev' \<noteq> Some (b, False))
            \<and> runEffects prev (ls @ rest) c = runEffects prev' rest c"
  using assms
proof (induction ls arbitrary: prev)
  case Nil
  then show ?case by auto
next
  case (Cons x ls)
  have lx: "loading x" using Cons.prems(1) by simp
  have tl: "\<forall>y\<in>set ls. loading y" using Cons.prems(1) by simp
  show ?case
  proof (cases "prev = Some (isAuthenticated x, loading x)")
    case True
    then show ?thesis using Cons.IH[OF tl Cons.prems(2)] by simp
  next
    case False
    have "\<forall>b. Some (isAuthenticated x, loading x) \<noteq> Some (b, False)" using lx by simp
    from Cons.IH[OF tl this] False lx show ?thesis
      by (simp add: HomePage_effect_def)
  qed
qed

text \<open>
  C10. A run of the home page's effect pushes nothing while \<^verbatim>\<open>loading\<close> holds, and
  otherwise pushes one route: \<^verbatim>\<open>/todos\<close> when authenticated, \<^verbatim>\<open>/login\<close> when not. Over a
  visit, the renders in which the authentication check is still loading push no
  route. Once a render has \<^verbatim>\<open>loading\<close> false, and the
  authentication state stays as it is from then on, exactly one route has been pushed:
  \<^verbatim>\<open>/todos\<close> for an authenticated user, \<^verbatim>\<open>/login\<close> otherwise.
\<close>

theorem HomePage_redirect:
  assumes "\<forall>x\<in>set ls. loading x" and "\<not> loading a" and "0 < n"
  shows "pushes (during c (HomePage_effect b c))
           = (if loading b then [] else [if isAuthenticated b then ''/todos'' else ''/login''])
       \<and> pushes (during c (HomePage_visit ls c)) = []
       \<and> pushes (during c (HomePage_visit (ls @ replicate n a) c))
           = [if isAuthenticated a then ''/todos'' else ''/login'']"
proof -
  have 0: "pushes (during c (HomePage_effect b c))
      = (if loading b then [] else [if isAuthenticated b then ''/todos'' else ''/login''])"
    by (simp add: HomePage_effect_def push_def during_def)
  have none: "\<forall>b. (None :: (bool \<times> bool) option) \<noteq> Some (b, False)" by simp
  obtain p where "runEffects None (ls @ []) c = runEffects p [] c"
    using runEffects_loading[OF assms(1) none] by blast
  then have 1: "HomePage_visit ls c = c" by (simp add: HomePage_visit_def)
  obtain q where q: "\<forall>b. q \<noteq> Some (b, False)"
    and "runEffects None (ls @ replicate n a) c = runEffects q (replicate n a) c"
    using runEffects_loading[OF assms(1) none] by blast
  moreover have "q \<noteq> Some (isAuthenticated a, loading a)" using q assms(2) by simp
  ultimately have 2: "HomePage_visit (ls @ replicate n a) c = HomePage_effect a c"
    using runEffects_loaded[OF _ assms(3)] by (simp add: HomePage_visit_def)
  have "pushes (during c (HomePage_visit (ls @ replicate n a) c))
      = [if isAuthenticated a then ''/todos'' else ''/login'']"
    using assms(2) by (simp add: 2 HomePage_effect_def push_def during_def)
  moreover have "pushes (during c (HomePage_visit ls c)) = []"
    by (simp add: 1 during_def)
  ultimately show ?thesis using 0 by simp
qed

theorem HomePage_redirect_witness:
  "loading (auth signedOut) \<and> \<not> loading (auth signedIn) \<and> (0::nat) < 2
   \<and> pushes (during signedOut (HomePage_effect \<lparr>user = None, isAuthenticated = False, loading = False\<rparr>
        signedOut)) = [''/login'']
   \<and> pushes (during signedOut (HomePage_visit [auth signedOut] signedOut)) = []
   \<and> pushes (during signedOut
        (HomePage_visit ([auth signedOut] @ replicate 2 (auth signedIn)) signedOut)) = [''/todos'']"
  using HomePage_redirect[of "[auth signedOut]" "auth signedIn" 2 signedOut
      "\<lparr>user = None, isAuthenticated = False, loading = False\<rparr>"]
  by (simp add: signedOut_def signedIn_def)

end
